theory Spec2Isabelle
  imports Main
begin

section \<open>Package db: the connector with a reader pool and a writer pool\<close>

subsection \<open>Go error values\<close>

text \<open>
  A Go \<open>error\<close> is an interface value; \<open>nil\<close> is modelled by \<open>None\<close> of
  \<open>error option\<close>. The two package-level sentinels are values of their own, so that
  comparing with them is comparing identities. \<open>errorString s\<close> is what
  \<open>errors.New(s)\<close> and \<open>fmt.Errorf\<close> without a \<open>%w\<close> verb return when they run
  inside a function: a value with message \<open>s\<close> and no \<open>Unwrap\<close> method.
  \<open>External m c\<close> is an error made by a library (the SQL parser, pgx, the AWS SDK):
  its message and the error it wraps, if any.
\<close>

datatype error =
    ErrReaderNotCreated
  | ErrWriterNotCreated
  | errorString string
  | External string "error option"

fun Error :: "error \<Rightarrow> string" where
  "Error ErrReaderNotCreated = ''reader pool not created''"
| "Error ErrWriterNotCreated = ''writer pool not created''"
| "Error (errorString s) = s"
| "Error (External m c) = m"

fun Unwrap :: "error \<Rightarrow> error option" where
  "Unwrap (External m c) = c"
| "Unwrap e = None"

text \<open>\<open>errors.Is(e, target)\<close>: walk the \<open>Unwrap\<close> chain of \<open>e\<close> looking for \<open>target\<close>.\<close>

fun errors_Is :: "error \<Rightarrow> error \<Rightarrow> bool" where
  "errors_Is (External m c) t =
     (External m c = t \<or> (case c of None \<Rightarrow> False | Some e \<Rightarrow> errors_Is e t))"
| "errors_Is e t = (e = t)"

subsection \<open>Roles\<close>

text \<open>\<open>type DBProxies string\<close>: every string is a value of the type.\<close>

type_synonym DBProxies = string

definition Read :: DBProxies where
  "Read = ''read''"

definition Write :: DBProxies where
  "Write = ''write''"

definition ReadAndWrite :: DBProxies where
  "ReadAndWrite = ''readAndWrite''"

subsection \<open>The SQL parser, a library\<close>

text \<open>
  \<open>parser.Parse\<close>, \<open>tree.CanWriteData\<close> and \<open>tree.CanModifySchema\<close> belong to
  \<open>github.com/auxten/postgresql-parser\<close>; they are parameters of the model. \<open>'s\<close> is
  the type of a parsed statement's AST. \<open>Parse\<close> returns Go's pair
  \<open>(Statements, error)\<close>.
\<close>

record 's sqlparser =
  Parse :: "string \<Rightarrow> 's list \<times> error option"
  CanWriteData :: "'s \<Rightarrow> bool"
  CanModifySchema :: "'s \<Rightarrow> bool"

subsection \<open>The connector and what its methods return\<close>

text \<open>
  \<open>'p\<close> is a \<open>*pgxpool.Pool\<close> that is not nil; a field of type \<open>*pgxpool.Pool\<close>
  is a \<open>'p option\<close>. The receiver of every method is taken to be a non-nil
  \<open>*AWSDB\<close>.
\<close>

record 'p AWSDB =
  reader :: "'p option"
  writer :: "'p option"

text \<open>
  The calls the connector makes on a pool. \<open>'a\<close> is the type of an SQL argument,
  \<open>'f\<close> the type of the function handed to \<open>BeginFunc\<close>. Every method passes its
  \<open>ctx\<close> on unchanged; it is left out.
\<close>

datatype 'p begin_call = PoolBegin 'p

datatype ('p, 'f) beginFunc_call = PoolBeginFunc 'p 'f

datatype ('p, 'a) sql_call =
    PoolExec 'p string "'a list"
  | PoolQuery 'p string "'a list"
  | PoolQueryRow 'p string "'a list"

text \<open>
  A method either returns a value it made itself, having called no pool
  (\<open>Return\<close>), or ends in \<open>return pool.M(...)\<close> and returns what that one call
  returns (\<open>TailCall\<close>).
\<close>

datatype ('r, 'c) outcome = Return 'r | TailCall 'c

text \<open>\<open>DBProxyError\<close> implements \<open>pgx.Row\<close>; its \<open>Scan\<close> returns the stored error.\<close>

datatype DBProxyError = DBProxyError (err: "error option")

definition Scan :: "DBProxyError \<Rightarrow> error option" where
  "Scan d = err d"

definition Begin :: "'p AWSDB \<Rightarrow> (error, 'p begin_call) outcome" where
  "Begin d =
     (case writer d of
        None \<Rightarrow> Return ErrWriterNotCreated
      | Some w \<Rightarrow> TailCall (PoolBegin w))"

definition BeginFunc :: "'p AWSDB \<Rightarrow> 'f \<Rightarrow> (error, ('p, 'f) beginFunc_call) outcome" where
  "BeginFunc d f =
     (case writer d of
        None \<Rightarrow> Return ErrWriterNotCreated
      | Some w \<Rightarrow> TailCall (PoolBeginFunc w f))"

definition Exec ::
  "'p AWSDB \<Rightarrow> string \<Rightarrow> 'a list \<Rightarrow> (error, ('p, 'a) sql_call) outcome" where
  "Exec d sql args =
     (case writer d of
        None \<Rightarrow> Return ErrWriterNotCreated
      | Some w \<Rightarrow> TailCall (PoolExec w sql args))"

text \<open>The loop of \<open>getProxyFromSQL\<close> over the parsed statements.\<close>

fun rangeStmts :: "'s sqlparser \<Rightarrow> 's list \<Rightarrow> DBProxies" where
  "rangeStmts P [] = Read"
| "rangeStmts P (s # stmts) =
     (if CanWriteData P s \<or> CanModifySchema P s then Write else rangeStmts P stmts)"

definition getProxyFromSQL :: "'s sqlparser \<Rightarrow> string \<Rightarrow> DBProxies \<times> error option" where
  "getProxyFromSQL P sql =
     (case Parse P sql of
        (stmts, Some e) \<Rightarrow> ('''', Some e)
      | (stmts, None) \<Rightarrow> (rangeStmts P stmts, None))"

text \<open>
  \<open>fmt.Errorf("could not parse sql string: %v", err)\<close>: the verb \<open>%v\<close> prints
  \<open>err.Error()\<close>, and without \<open>%w\<close> the result is an \<open>errorString\<close>.
\<close>

definition couldNotParse :: "error \<Rightarrow> error" where
  "couldNotParse e = errorString (''could not parse sql string: '' @ Error e)"

definition Query ::
  "'s sqlparser \<Rightarrow> 'p AWSDB \<Rightarrow> string \<Rightarrow> 'a list \<Rightarrow> (error, ('p, 'a) sql_call) outcome"
where
  "Query P d sql args =
     (case getProxyFromSQL P sql of
        (proxy, Some e) \<Rightarrow> Return (couldNotParse e)
      | (proxy, None) \<Rightarrow>
          if proxy = Read then
            (case reader d of
               None \<Rightarrow> Return ErrReaderNotCreated
             | Some r \<Rightarrow> TailCall (PoolQuery r sql args))
          else if proxy = Write then
            (case writer d of
               None \<Rightarrow> Return ErrWriterNotCreated
             | Some w \<Rightarrow> TailCall (PoolQuery w sql args))
          else Return (errorString ''error getting db proxy''))"

definition QueryRow ::
  "'s sqlparser \<Rightarrow> 'p AWSDB \<Rightarrow> string \<Rightarrow> 'a list \<Rightarrow>
     (DBProxyError, ('p, 'a) sql_call) outcome"
where
  "QueryRow P d sql args =
     (case getProxyFromSQL P sql of
        (proxy, Some e) \<Rightarrow> Return (DBProxyError (Some (couldNotParse e)))
      | (proxy, None) \<Rightarrow>
          if proxy = Read then
            (case reader d of
               None \<Rightarrow> Return (DBProxyError (Some ErrReaderNotCreated))
             | Some r \<Rightarrow> TailCall (PoolQueryRow r sql args))
          else if proxy = Write then
            (case writer d of
               None \<Rightarrow> Return (DBProxyError (Some ErrWriterNotCreated))
             | Some w \<Rightarrow> TailCall (PoolQueryRow w sql args))
          else Return (DBProxyError (Some (errorString ''error getting db proxy''))))"

subsection \<open>Credentials and the token refresh\<close>

text \<open>
  A \<open>time.Time\<close> is the number of nanoseconds since the zero \<open>Time\<close>, a
  \<open>time.Duration\<close> a number of nanoseconds; both are unbounded integers here (the
  durations of this package are far from the bounds of \<open>int64\<close>).
\<close>

type_synonym Time = int




record dbSecret =
  UserName :: string
  Engine :: string
  Host :: string
  Port :: int
  DBName :: string
  exp :: Time

text \<open>\<open>var rs dbSecret\<close>: the zero value.\<close>

definition zeroSecret :: dbSecret where
  "zeroSecret =
     \<lparr> UserName = '''', Engine = '''', Host = '''', Port = 0, DBName = '''', exp = 0 \<rparr>"

text \<open>
  What the package calls outside itself. \<open>GetSecret\<close> and \<open>GetRDSAuthToken\<close> are the
  two functions of package \<open>aws\<close>; \<open>Unmarshal r ds\<close> is \<open>json.Unmarshal\<close> of \<open>r\<close>
  onto \<open>ds\<close>; \<open>ParseConfig\<close> is \<open>pgxpool.ParseConfig\<close>, with \<open>'cfg\<close> the type
  \<open>*pgxpool.Config\<close>; \<open>ConnectConfig cfg ds\<close> is \<open>pgxpool.ConnectConfig\<close> on
  \<open>cfg\<close> after \<open>dbOpen\<close> has set its fields and its two callbacks, which close over
  \<open>ds\<close>; \<open>PoolPing\<close> is \<open>(*pgxpool.Pool).Ping\<close>. Each returns what the Go function
  returns, a pair with an error that may be nil.
\<close>

record ('p, 'cfg) libs =
  GetSecret :: "string \<Rightarrow> string \<times> error option"
  GetRDSAuthToken :: "string \<Rightarrow> string \<Rightarrow> int \<Rightarrow> string \<times> error option"
  Unmarshal :: "string \<Rightarrow> dbSecret \<Rightarrow> dbSecret \<times> error option"
  ParseConfig :: "string \<Rightarrow> 'cfg \<times> error option"
  ConnectConfig :: "'cfg \<Rightarrow> dbSecret \<Rightarrow> 'p option \<times> error option"
  PoolPing :: "'p \<Rightarrow> error option"




subsection \<open>Opening and probing one pool\<close>

text \<open>\<open>secretNames[dp]\<close>: a map lookup, the empty string for a key that is not there.\<close>

definition secretNames :: "DBProxies \<Rightarrow> string" where
  "secretNames dp =
     (if dp = Read then ''core_iam_user_read''
      else if dp = Write then ''core_iam_user_write''
      else '''')"

definition getValuesAWS ::
  "('p, 'cfg) libs \<Rightarrow> string \<Rightarrow> dbSecret \<Rightarrow> dbSecret \<times> error option" where
  "getValuesAWS L name ds =
     (case GetSecret L name of
        (r, Some e) \<Rightarrow> (ds, Some e)
      | (r, None) \<Rightarrow> Unmarshal L r ds)"

text \<open>The verb \<open>%d\<close> of \<open>fmt.Sprintf\<close>: an integer in decimal.\<close>

fun decimal :: "nat \<Rightarrow> string" where
  "decimal n =
     (if n < 10 then [''0123456789'' ! n]
      else decimal (n div 10) @ [''0123456789'' ! (n mod 10)])"

definition itoa :: "int \<Rightarrow> string" where
  "itoa i = (if i < 0 then CHR ''-'' # decimal (nat (- i)) else decimal (nat i))"

definition dsn :: "dbSecret \<Rightarrow> string" where
  "dsn ds =
     ''host='' @ Host ds @ '' port='' @ itoa (Port ds) @ '' user='' @ UserName ds @
     '' password='' @ ''foo'' @ '' dbname='' @ DBName ds"

text \<open>
  The calls that leave the process, in the order they are made. \<open>ParseConfig\<close> and
  \<open>Unmarshal\<close> stay inside it.
\<close>

datatype 'p call = GetSecretCall string | ConnectConfigCall string | PingCall 'p

text \<open>\<open>dbOpen\<close>: the pair it returns, and the calls it made.\<close>

definition dbOpen ::
  "('p, 'cfg) libs \<Rightarrow> dbSecret \<Rightarrow> ('p option \<times> error option) \<times> 'p call list" where
  "dbOpen L ds =
     (case ParseConfig L (dsn ds) of
        (cfg, Some e) \<Rightarrow> ((None, Some e), [])
      | (cfg, None) \<Rightarrow> (ConnectConfig L cfg ds, [ConnectConfigCall (dsn ds)]))"

text \<open>
  How the body of a goroutine ends: it reaches its end (\<open>Finish\<close>), it sends an error
  on the channel and returns (\<open>Send\<close>), or it panics. The deferred \<open>wg.Done()\<close>
  belongs to the goroutine's steps below, not to the body.
\<close>

datatype ending = Finish | Send error | Panic string

text \<open>
  \<open>connect\<close>, up to its send or its end: the connector as the body leaves it, the
  calls made, and the ending. \<open>db.reader.Ping\<close> on a nil pool is a nil pointer
  dereference.
\<close>

definition connect ::
  "('p, 'cfg) libs \<Rightarrow> DBProxies \<Rightarrow> 'p AWSDB \<Rightarrow> 'p AWSDB \<times> 'p call list \<times> ending" where
  "connect L dp d =
     (case getValuesAWS L (secretNames dp) zeroSecret of
        (rs, Some e) \<Rightarrow> (d, [GetSecretCall (secretNames dp)], Send e)
      | (rs, None) \<Rightarrow>
          if dp = Read then
            (case dbOpen L rs of
               ((pool, Some e), cs) \<Rightarrow>
                 (d\<lparr>reader := pool\<rparr>, GetSecretCall (secretNames dp) # cs, Send e)
             | ((None, None), cs) \<Rightarrow>
                 (d\<lparr>reader := None\<rparr>, GetSecretCall (secretNames dp) # cs,
                  Panic ''nil pointer dereference'')
             | ((Some p, None), cs) \<Rightarrow>
                 (case PoolPing L p of
                    Some e \<Rightarrow>
                      (d\<lparr>reader := Some p\<rparr>,
                       GetSecretCall (secretNames dp) # cs @ [PingCall p], Send e)
                  | None \<Rightarrow>
                      (d\<lparr>reader := Some p\<rparr>,
                       GetSecretCall (secretNames dp) # cs @ [PingCall p], Finish)))
          else if dp = Write then
            (case dbOpen L rs of
               ((pool, Some e), cs) \<Rightarrow>
                 (d\<lparr>writer := pool\<rparr>, GetSecretCall (secretNames dp) # cs, Send e)
             | ((None, None), cs) \<Rightarrow>
                 (d\<lparr>writer := None\<rparr>, GetSecretCall (secretNames dp) # cs,
                  Panic ''nil pointer dereference'')
             | ((Some p, None), cs) \<Rightarrow>
                 (case PoolPing L p of
                    Some e \<Rightarrow>
                      (d\<lparr>writer := Some p\<rparr>,
                       GetSecretCall (secretNames dp) # cs @ [PingCall p], Send e)
                  | None \<Rightarrow>
                      (d\<lparr>writer := Some p\<rparr>,
                       GetSecretCall (secretNames dp) # cs @ [PingCall p], Finish)))
          else (d, [GetSecretCall (secretNames dp)], Finish))"

definition pingProxy ::
  "('p, 'cfg) libs \<Rightarrow> DBProxies \<Rightarrow> 'p AWSDB \<Rightarrow> 'p AWSDB \<times> 'p call list \<times> ending" where
  "pingProxy L dp d =
     (if dp = Read then
        (case reader d of
           None \<Rightarrow> (d, [], Panic ''nil pointer dereference'')
         | Some p \<Rightarrow>
             (case PoolPing L p of
                Some e \<Rightarrow> (d, [PingCall p], Send e)
              | None \<Rightarrow> (d, [PingCall p], Finish)))
      else if dp = Write then
        (case writer d of
           None \<Rightarrow> (d, [], Panic ''nil pointer dereference'')
         | Some p \<Rightarrow>
             (case PoolPing L p of
                Some e \<Rightarrow> (d, [PingCall p], Send e)
              | None \<Rightarrow> (d, [PingCall p], Finish)))
      else (d, [], Finish))"

subsection \<open>\<open>NewConnection\<close> and \<open>Ping\<close>: goroutines, a channel and a WaitGroup\<close>

text \<open>
  Both methods make an unbuffered channel \<open>errs\<close> and a \<open>sync.WaitGroup\<close>, start a
  goroutine that runs \<open>wg.Wait(); close(errs)\<close>, start one goroutine for each pool,
  and range over \<open>errs\<close>. The calling goroutine is a list of the statements it has
  still to run; \<open>RangeErrs\<close> is the loop \<open>for err := range errs\<close> with its
  \<open>return err\<close> inside and the \<open>return nil\<close> after it.
\<close>

datatype goroutine = Connect DBProxies | PingProxy DBProxies

datatype instr = WgAdd | WgDone | GoWaitClose | Go goroutine | ReturnErr error | RangeErrs

text \<open>
  \<open>fmt.Errorf("%v, %v, or %v not provided", Read, Write, ReadAndWrite)\<close>.
\<close>

definition notProvided :: error where
  "notProvided = errorString (Read @ '', '' @ Write @ '', or '' @ ReadAndWrite @ '' not provided'')"

definition NewConnection :: "DBProxies \<Rightarrow> instr list" where
  "NewConnection dp =
     [WgAdd, GoWaitClose] @
     (if dp = Read then [Go (Connect Read)]
      else if dp = Write then [Go (Connect Write)]
      else if dp = ReadAndWrite then [WgAdd, Go (Connect Read), Go (Connect Write)]
      else [WgDone, ReturnErr notProvided]) @
     [RangeErrs]"

definition Ping :: "'p AWSDB \<Rightarrow> instr list" where
  "Ping d =
     [GoWaitClose] @
     (if reader d \<noteq> None then [WgAdd, Go (PingProxy Read)] else []) @
     (if writer d \<noteq> None then [WgAdd, Go (PingProxy Write)] else []) @
     [RangeErrs]"

text \<open>
  A started goroutine is running its body, blocked in its send, past its body with the
  deferred \<open>wg.Done()\<close> still to run, or gone. The goroutine of \<open>wg.Wait();
  close(errs)\<close> is not started, in \<open>wg.Wait()\<close>, back from it, or gone. The calling
  goroutine is at a statement or has returned.
\<close>

datatype progress = Running goroutine | Sending error | Deferred | Exited

datatype waiting = NotStarted | Waiting | Woken | Gone

datatype caller = At "instr list" | Returned "error option"

record 'p state =
  conn :: "'p AWSDB"
  calls :: "'p call list"
  wg :: int
  errsClosed :: bool
  waiter :: waiting
  tasks :: "progress list"
  mainAt :: caller
  panicked :: "string option"

definition start :: "'p AWSDB \<Rightarrow> instr list \<Rightarrow> 'p state" where
  "start d prog =
     \<lparr> conn = d, calls = [], wg = 0, errsClosed = False, waiter = NotStarted,
       tasks = [], mainAt = At prog, panicked = None \<rparr>"

definition body ::
  "('p, 'cfg) libs \<Rightarrow> goroutine \<Rightarrow> 'p AWSDB \<Rightarrow> 'p AWSDB \<times> 'p call list \<times> ending" where
  "body L g d = (case g of Connect dp \<Rightarrow> connect L dp d | PingProxy dp \<Rightarrow> pingProxy L dp d)"

text \<open>
  One step of the calling goroutine. \<open>wg.Done()\<close> on a counter that is zero panics.
  The range loop leaves with \<open>return nil\<close> once the channel is closed; receiving is
  the step \<open>stepRecv\<close>.
\<close>

definition stepMain :: "'p state \<Rightarrow> 'p state option" where
  "stepMain s =
     (case mainAt s of
        Returned r \<Rightarrow> None
      | At [] \<Rightarrow> None
      | At (i # is) \<Rightarrow>
          (case i of
             WgAdd \<Rightarrow> Some (s\<lparr>wg := wg s + 1, mainAt := At is\<rparr>)
           | WgDone \<Rightarrow>
               if wg s \<le> 0 then Some (s\<lparr>panicked := Some ''sync: negative WaitGroup counter''\<rparr>)
               else Some (s\<lparr>wg := wg s - 1, mainAt := At is\<rparr>)
           | GoWaitClose \<Rightarrow> Some (s\<lparr>waiter := Waiting, mainAt := At is\<rparr>)
           | Go g \<Rightarrow> Some (s\<lparr>tasks := tasks s @ [Running g], mainAt := At is\<rparr>)
           | ReturnErr e \<Rightarrow> Some (s\<lparr>mainAt := Returned (Some e)\<rparr>)
           | RangeErrs \<Rightarrow>
               if errsClosed s then Some (s\<lparr>mainAt := Returned None\<rparr>) else None))"

text \<open>
  The channel is unbuffered: a send and a receive happen together. The loop receives
  the error of goroutine \<open>i\<close>, which is blocked in its send; the error is not nil, so
  the loop returns it.
\<close>

definition stepRecv :: "nat \<Rightarrow> 'p state \<Rightarrow> 'p state option" where
  "stepRecv i s =
     (case mainAt s of
        At (RangeErrs # is) \<Rightarrow>
          if i < length (tasks s) \<and> \<not> errsClosed s then
            (case tasks s ! i of
               Sending e \<Rightarrow>
                 Some (s\<lparr>mainAt := Returned (Some e), tasks := (tasks s)[i := Deferred]\<rparr>)
             | _ \<Rightarrow> None)
          else None
      | _ \<Rightarrow> None)"

text \<open>
  One step of goroutine \<open>i\<close>: its body, which ends in a blocked send, at its end or in
  a panic; a send on a channel that has been closed, which panics; the deferred
  \<open>wg.Done()\<close>.
\<close>

definition stepTask :: "('p, 'cfg) libs \<Rightarrow> nat \<Rightarrow> 'p state \<Rightarrow> 'p state option" where
  "stepTask L i s =
     (if i < length (tasks s) then
        (case tasks s ! i of
           Running g \<Rightarrow>
             (case body L g (conn s) of
                (d, cs, Finish) \<Rightarrow>
                  Some (s\<lparr>conn := d, calls := calls s @ cs, tasks := (tasks s)[i := Deferred]\<rparr>)
              | (d, cs, Send e) \<Rightarrow>
                  Some (s\<lparr>conn := d, calls := calls s @ cs, tasks := (tasks s)[i := Sending e]\<rparr>)
              | (d, cs, Panic m) \<Rightarrow>
                  Some (s\<lparr>conn := d, calls := calls s @ cs, panicked := Some m\<rparr>))
         | Sending e \<Rightarrow>
             if errsClosed s then Some (s\<lparr>panicked := Some ''send on closed channel''\<rparr>)
             else None
         | Deferred \<Rightarrow>
             if wg s \<le> 0 then Some (s\<lparr>panicked := Some ''sync: negative WaitGroup counter''\<rparr>)
             else Some (s\<lparr>wg := wg s - 1, tasks := (tasks s)[i := Exited]\<rparr>)
         | Exited \<Rightarrow> None)
      else None)"

text \<open>\<open>wg.Wait()\<close> returns when the counter is zero; then the channel is closed.\<close>

definition stepWaiter :: "'p state \<Rightarrow> 'p state option" where
  "stepWaiter s =
     (case waiter s of
        NotStarted \<Rightarrow> None
      | Waiting \<Rightarrow> if wg s = 0 then Some (s\<lparr>waiter := Woken\<rparr>) else None
      | Woken \<Rightarrow> Some (s\<lparr>errsClosed := True, waiter := Gone\<rparr>)
      | Gone \<Rightarrow> None)"

text \<open>
  The scheduler picks who moves. A step that cannot be taken is \<open>None\<close>; after a
  panic nothing moves.
\<close>

datatype choice = SchedMain | SchedRecv nat | SchedTask nat | SchedWaiter

definition step :: "('p, 'cfg) libs \<Rightarrow> choice \<Rightarrow> 'p state \<Rightarrow> 'p state option" where
  "step L c s =
     (if panicked s \<noteq> None then None
      else case c of
        SchedMain \<Rightarrow> stepMain s
      | SchedRecv i \<Rightarrow> stepRecv i s
      | SchedTask i \<Rightarrow> stepTask L i s
      | SchedWaiter \<Rightarrow> stepWaiter s)"

text \<open>A run under a schedule; a choice that cannot move is passed over.\<close>

fun exec :: "('p, 'cfg) libs \<Rightarrow> choice list \<Rightarrow> 'p state \<Rightarrow> 'p state" where
  "exec L [] s = s"
| "exec L (c # cs) s = (case step L c s of None \<Rightarrow> exec L cs s | Some s' \<Rightarrow> exec L cs s')"

subsection \<open>Vocabulary of the statements\<close>

text \<open>
  The pool field of a role, and the connector with that field set. \<open>returnsWith L d dp
  r d'\<close> says of the call \<open>NewConnection(ctx, dp)\<close> on the connector \<open>d\<close>: under
  every schedule, when the call has returned it has returned \<open>r\<close> and the connector is
  \<open>d'\<close>; and under some schedule it does return.
\<close>

definition poolOf :: "DBProxies \<Rightarrow> 'p AWSDB \<Rightarrow> 'p option" where
  "poolOf dp d = (if dp = Read then reader d else if dp = Write then writer d else None)"

definition setPool :: "DBProxies \<Rightarrow> 'p option \<Rightarrow> 'p AWSDB \<Rightarrow> 'p AWSDB" where
  "setPool dp pool d =
     (if dp = Read then d\<lparr>reader := pool\<rparr> else if dp = Write then d\<lparr>writer := pool\<rparr> else d)"

definition returnsWith ::
  "('p, 'cfg) libs \<Rightarrow> 'p AWSDB \<Rightarrow> DBProxies \<Rightarrow> error option \<Rightarrow> 'p AWSDB \<Rightarrow> bool" where
  "returnsWith L d dp r d' \<longleftrightarrow>
     (\<forall>cs r'. mainAt (exec L cs (start d (NewConnection dp))) = Returned r' \<longrightarrow>
        r' = r \<and> conn (exec L cs (start d (NewConnection dp))) = d') \<and>
     (\<exists>cs. mainAt (exec L cs (start d (NewConnection dp))) = Returned r)"

subsection \<open>Invariants of the runs\<close>

text \<open>
  The states that a call with a role other than the three can reach, and those that a
  call for one role can reach; \<open>connect L dp d\<close> is what the body of the one goroutine
  does when it runs.
\<close>

definition invalidInv :: "'p AWSDB \<Rightarrow> 'p state \<Rightarrow> bool" where
  "invalidInv d s \<longleftrightarrow>
     conn s = d \<and> calls s = [] \<and> tasks s = [] \<and>
     (mainAt s = At [WgAdd, GoWaitClose, WgDone, ReturnErr notProvided, RangeErrs] \<or>
      mainAt s = At [GoWaitClose, WgDone, ReturnErr notProvided, RangeErrs] \<or>
      mainAt s = At [WgDone, ReturnErr notProvided, RangeErrs] \<or>
      mainAt s = At [ReturnErr notProvided, RangeErrs] \<or>
      mainAt s = Returned (Some notProvided))"

definition singleInv ::
  "('p, 'cfg) libs \<Rightarrow> 'p AWSDB \<Rightarrow> DBProxies \<Rightarrow> 'p state \<Rightarrow> bool" where
  "singleInv L d dp s \<longleftrightarrow>
     (case connect L dp d of (d', cs', en) \<Rightarrow>
        (tasks s = [] \<and> conn s = d \<and> calls s = [] \<and> \<not> errsClosed s \<and>
           (mainAt s = At [WgAdd, GoWaitClose, Go (Connect dp), RangeErrs] \<and>
              wg s = 0 \<and> waiter s = NotStarted \<or>
            mainAt s = At [GoWaitClose, Go (Connect dp), RangeErrs] \<and>
              wg s = 1 \<and> waiter s = NotStarted \<or>
            mainAt s = At [Go (Connect dp), RangeErrs] \<and> wg s = 1 \<and> waiter s = Waiting)) \<or>
        (mainAt s = At [RangeErrs] \<and> tasks s = [Running (Connect dp)] \<and> conn s = d \<and>
           calls s = [] \<and> wg s = 1 \<and> waiter s = Waiting \<and> \<not> errsClosed s) \<or>
        (mainAt s = At [RangeErrs] \<and> conn s = d' \<and> calls s = cs' \<and>
           (\<exists>m. en = Panic m) \<and> panicked s \<noteq> None) \<or>
        (\<exists>e. en = Send e \<and> conn s = d' \<and> calls s = cs' \<and>
           (mainAt s = At [RangeErrs] \<and> tasks s = [Sending e] \<and> wg s = 1 \<and>
              waiter s = Waiting \<and> \<not> errsClosed s \<or>
            mainAt s = Returned (Some e) \<and> tasks s = [Deferred] \<and> wg s = 1 \<and>
              waiter s = Waiting \<and> \<not> errsClosed s \<or>
            mainAt s = Returned (Some e) \<and> tasks s = [Exited] \<and> wg s = 0)) \<or>
        (en = Finish \<and> conn s = d' \<and> calls s = cs' \<and>
           (mainAt s = At [RangeErrs] \<and> tasks s = [Deferred] \<and> wg s = 1 \<and>
              waiter s = Waiting \<and> \<not> errsClosed s \<or>
            tasks s = [Exited] \<and> wg s = 0 \<and>
              (mainAt s = At [RangeErrs] \<or> mainAt s = Returned None))))"

text \<open>
  The states that \<open>NewConnection(ctx, ReadAndWrite)\<close> can reach when the body of the
  reader's goroutine ends in sending \<open>eR\<close> and that of the writer's in sending
  \<open>eW\<close>, neither changing the connector. A goroutine is \<open>pending\<close> when it has not
  run its body yet or is blocked in its send.
\<close>

definition pending :: "DBProxies \<Rightarrow> error \<Rightarrow> progress \<Rightarrow> bool" where
  "pending dp e t \<longleftrightarrow> t = Running (Connect dp) \<or> t = Sending e"

definition bothInv :: "'p AWSDB \<Rightarrow> error \<Rightarrow> error \<Rightarrow> 'p state \<Rightarrow> bool" where
  "bothInv d eR eW s \<longleftrightarrow>
     \<not> errsClosed s \<and> panicked s = None \<and> conn s = d \<and>
     (mainAt s = At [WgAdd, GoWaitClose, WgAdd, Go (Connect Read), Go (Connect Write), RangeErrs] \<and>
        wg s = 0 \<and> waiter s = NotStarted \<and> tasks s = [] \<or>
      mainAt s = At [GoWaitClose, WgAdd, Go (Connect Read), Go (Connect Write), RangeErrs] \<and>
        wg s = 1 \<and> waiter s = NotStarted \<and> tasks s = [] \<or>
      mainAt s = At [WgAdd, Go (Connect Read), Go (Connect Write), RangeErrs] \<and>
        wg s = 1 \<and> waiter s = Waiting \<and> tasks s = [] \<or>
      mainAt s = At [Go (Connect Read), Go (Connect Write), RangeErrs] \<and>
        wg s = 2 \<and> waiter s = Waiting \<and> tasks s = [] \<or>
      mainAt s = At [Go (Connect Write), RangeErrs] \<and> wg s = 2 \<and> waiter s = Waiting \<and>
        (\<exists>t0. tasks s = [t0] \<and> pending Read eR t0) \<or>
      mainAt s = At [RangeErrs] \<and> wg s = 2 \<and> waiter s = Waiting \<and>
        (\<exists>t0 t1. tasks s = [t0, t1] \<and> pending Read eR t0 \<and> pending Write eW t1) \<or>
      mainAt s = Returned (Some eR) \<and> waiter s = Waiting \<and>
        (\<exists>t1. pending Write eW t1 \<and>
           (tasks s = [Deferred, t1] \<and> wg s = 2 \<or> tasks s = [Exited, t1] \<and> wg s = 1)) \<or>
      mainAt s = Returned (Some eW) \<and> waiter s = Waiting \<and>
        (\<exists>t0. pending Read eR t0 \<and>
           (tasks s = [t0, Deferred] \<and> wg s = 2 \<or> tasks s = [t0, Exited] \<and> wg s = 1)))"

subsection \<open>Stand-ins for the libraries, to run the model on concrete inputs\<close>

text \<open>
  A parser that knows three SQL strings, names a statement by its leading keyword and
  rejects every other string with a syntax error.
\<close>

definition demoParser :: "string sqlparser" where
  "demoParser =
     \<lparr> Parse = (\<lambda>sql.
         if sql = ''SELECT 1'' then ([''SELECT''], None)
         else if sql = ''SELECT 1; INSERT INTO some_table(id) VALUES (1);''
           then ([''SELECT'', ''INSERT''], None)
         else if sql = ''CREATE TABLE some_table(id INT);'' then ([''CREATE''], None)
         else ([], Some (External ''syntax error'' None))),
       CanWriteData = (\<lambda>s. s \<in> {''INSERT'', ''UPDATE'', ''DELETE''}),
       CanModifySchema = (\<lambda>s. s \<in> {''CREATE'', ''ALTER'', ''DROP''}) \<rparr>"

text \<open>Connectors whose pools, where present, are named by numbers.\<close>

definition noPools :: "nat AWSDB" where
  "noPools = \<lparr> reader = None, writer = None \<rparr>"

definition readerOnly :: "nat AWSDB" where
  "readerOnly = \<lparr> reader = Some 1, writer = None \<rparr>"

definition writerOnly :: "nat AWSDB" where
  "writerOnly = \<lparr> reader = None, writer = Some 2 \<rparr>"

definition bothPools :: "nat AWSDB" where
  "bothPools = \<lparr> reader = Some 1, writer = Some 2 \<rparr>"

text \<open>
  Libraries in which every call succeeds: a secret is its own name and decodes to a
  record with that user name, the pool opened for the reader's secret is named 1 and
  any other pool 2, and the token is a fixed string.
\<close>

definition demoSecret :: dbSecret where
  "demoSecret =
     \<lparr> UserName = ''u'', Engine = ''postgres'', Host = ''h'', Port = 5432,
       DBName = ''core'', exp = 0 \<rparr>"

definition demoLibs :: "(nat, unit) libs" where
  "demoLibs =
     \<lparr> GetSecret = (\<lambda>name. (name, None)),
       GetRDSAuthToken = (\<lambda>host user port. (''token'', None)),
       Unmarshal = (\<lambda>r ds. (demoSecret\<lparr>UserName := r, exp := exp ds\<rparr>, None)),
       ParseConfig = (\<lambda>dsn. ((), None)),
       ConnectConfig =
         (\<lambda>cfg ds. (Some (if UserName ds = ''core_iam_user_read'' then 1 else 2), None)),
       PoolPing = (\<lambda>p. None) \<rparr>"

text \<open>
  Libraries in which every secret is missing, and libraries in which every probe of a
  pool is refused. \<open>secret not found\<close> is the error that \<open>aws.GetSecret\<close> makes.
\<close>

definition secretFailLibs :: "(nat, unit) libs" where
  "secretFailLibs = demoLibs\<lparr>GetSecret := (\<lambda>name. ('''', Some (errorString ''secret not found'')))\<rparr>"

definition pingFailLibs :: "(nat, unit) libs" where
  "pingFailLibs = demoLibs\<lparr>PoolPing := (\<lambda>p. Some (External ''connection refused'' None))\<rparr>"

text \<open>
  Two runs. In the first, \<open>NewConnection(ctx, ReadAndWrite)\<close> meets two missing
  secrets: both goroutines run to their send, the loop receives the reader's error and
  returns it, and the reader's goroutine runs its deferred \<open>wg.Done()\<close>. In the second,
  \<open>Ping\<close> on a connector with both pools starts the goroutine of \<open>wg.Wait()\<close>, which
  finds the counter at zero and closes the channel before the first \<open>wg.Add(1)\<close>; the
  loop then ends at once, and the reader's probe fails and sends.
\<close>

definition bothFailRun :: "nat state" where
  "bothFailRun =
     exec secretFailLibs
       [SchedMain, SchedMain, SchedMain, SchedMain, SchedMain,
        SchedTask 0, SchedTask 1, SchedRecv 0, SchedTask 0]
       (start noPools (NewConnection ReadAndWrite))"

definition pingRaceRun :: "nat state" where
  "pingRaceRun =
     exec pingFailLibs
       [SchedMain, SchedWaiter, SchedWaiter, SchedMain, SchedMain, SchedMain, SchedMain,
        SchedMain, SchedTask 0, SchedTask 0]
       (start bothPools (Ping bothPools))"

section \<open>The statement classifier\<close>

lemma Read_neq_Write: "Read \<noteq> Write"
  by (simp add: Read_def Write_def)

lemma empty_not_role: "'''' \<noteq> Read" "'''' \<noteq> Write" "'''' \<noteq> ReadAndWrite"
  by (simp_all add: Read_def Write_def ReadAndWrite_def)

lemma rangeStmts_eq:
  "rangeStmts P stmts =
     (if \<exists>s \<in> set stmts. CanWriteData P s \<or> CanModifySchema P s then Write else Read)"
  by (induction stmts) auto

lemma rangeStmts_role: "rangeStmts P stmts = Read \<or> rangeStmts P stmts = Write"
  by (simp add: rangeStmts_eq)

lemma getProxyFromSQL_error:
  "snd (getProxyFromSQL P sql) = Some e \<Longrightarrow> getProxyFromSQL P sql = ('''', Some e)"
  by (auto simp: getProxyFromSQL_def split: prod.splits option.splits)

lemma getProxyFromSQL_error_iff:
  "snd (getProxyFromSQL P sql) = snd (Parse P sql)"
  by (auto simp: getProxyFromSQL_def split: prod.splits option.splits)

lemma demoParser_classifies:
  "getProxyFromSQL demoParser ''SELECT 1'' = (Read, None)"
  "getProxyFromSQL demoParser ''CREATE TABLE some_table(id INT);'' = (Write, None)"
  "getProxyFromSQL demoParser ''SELEC 1'' = ('''', Some (External ''syntax error'' None))"
  by (simp_all add: getProxyFromSQL_def demoParser_def)

text \<open>
  C1. When the SQL parses, \<open>getProxyFromSQL\<close> returns \<open>Write\<close> with a nil error if some
  statement of the batch can write data or modify the schema, and \<open>Read\<close> with a nil
  error if none can. When the SQL does not parse, it returns the parser's error and the
  empty string, which is no role, and \<open>Query\<close> and \<open>QueryRow\<close> call no pool.
\<close>

theorem getProxyFromSQL_classifies:
  "(\<forall>stmts. Parse P sql = (stmts, None) \<longrightarrow>
      getProxyFromSQL P sql =
        (if \<exists>s \<in> set stmts. CanWriteData P s \<or> CanModifySchema P s then Write else Read,
         None)) \<and>
   (\<forall>stmts e. Parse P sql = (stmts, Some e) \<longrightarrow>
      getProxyFromSQL P sql = ('''', Some e) \<and>
      fst (getProxyFromSQL P sql) \<notin> {Read, Write, ReadAndWrite} \<and>
      (\<forall>c. Query P d sql args \<noteq> TailCall c) \<and>
      (\<forall>c. QueryRow P d sql args \<noteq> TailCall c))"
  by (simp add: getProxyFromSQL_def rangeStmts_eq Query_def QueryRow_def empty_not_role)

theorem getProxyFromSQL_classifies_witness:
  "getProxyFromSQL demoParser ''SELECT 1'' = (Read, None) \<and>
   getProxyFromSQL demoParser ''SELECT 1; INSERT INTO some_table(id) VALUES (1);''
     = (Write, None) \<and>
   getProxyFromSQL demoParser ''SELEC 1'' = ('''', Some (External ''syntax error'' None))"
  using getProxyFromSQL_classifies [of demoParser "''SELECT 1''" noPools "[] :: nat list"]
    getProxyFromSQL_classifies
      [of demoParser "''SELECT 1; INSERT INTO some_table(id) VALUES (1);''" noPools
        "[] :: nat list"]
    getProxyFromSQL_classifies [of demoParser "''SELEC 1''" noPools "[] :: nat list"]
  by (simp add: demoParser_def)

text \<open>
  C10. When \<open>getProxyFromSQL\<close> returns a nil error, the role it returns is \<open>Read\<close> or
  \<open>Write\<close>, and neither \<open>Query\<close> nor \<open>QueryRow\<close> returns the error of its
  \<open>default\<close> branch.
\<close>

theorem getProxyFromSQL_role:
  "snd (getProxyFromSQL P sql) = None \<longrightarrow>
     (fst (getProxyFromSQL P sql) = Read \<or> fst (getProxyFromSQL P sql) = Write) \<and>
     Query P d sql args \<noteq> Return (errorString ''error getting db proxy'') \<and>
     QueryRow P d sql args \<noteq>
       Return (DBProxyError (Some (errorString ''error getting db proxy'')))"
proof
  assume ok: "snd (getProxyFromSQL P sql) = None"
  then obtain stmts where p: "Parse P sql = (stmts, None)"
    by (auto simp: getProxyFromSQL_def split: prod.splits option.splits)
  then have g: "getProxyFromSQL P sql = (rangeStmts P stmts, None)"
    by (simp add: getProxyFromSQL_def)
  have r: "rangeStmts P stmts = Read \<or> rangeStmts P stmts = Write"
    by (rule rangeStmts_role)
  show "(fst (getProxyFromSQL P sql) = Read \<or> fst (getProxyFromSQL P sql) = Write) \<and>
     Query P d sql args \<noteq> Return (errorString ''error getting db proxy'') \<and>
     QueryRow P d sql args \<noteq>
       Return (DBProxyError (Some (errorString ''error getting db proxy'')))"
    using r by (auto simp: g Query_def QueryRow_def split: option.splits)
qed

theorem getProxyFromSQL_role_witness:
  "snd (getProxyFromSQL demoParser ''CREATE TABLE some_table(id INT);'') = None \<and>
   fst (getProxyFromSQL demoParser ''CREATE TABLE some_table(id INT);'') = Write \<and>
   (Query demoParser noPools ''CREATE TABLE some_table(id INT);'' ([] :: nat list))
     \<noteq> Return (errorString ''error getting db proxy'')"
  using getProxyFromSQL_role
    [of demoParser "''CREATE TABLE some_table(id INT);''" noPools "[] :: nat list"]
  by (simp add: demoParser_classifies)

section \<open>Routing of the connector's methods\<close>

text \<open>
  C2. For SQL classified as \<open>Write\<close>, \<open>Query\<close> and \<open>QueryRow\<close> on a connector with no
  writer pool return \<open>ErrWriterNotCreated\<close> (\<open>QueryRow\<close> in a \<open>DBProxyError\<close> row),
  and with a writer pool they end in that pool's \<open>Query\<close> or \<open>QueryRow\<close> on the same
  SQL and arguments. For SQL classified as \<open>Read\<close> the same holds of the reader pool
  and \<open>ErrReaderNotCreated\<close>.
\<close>

theorem Query_QueryRow_route:
  "(getProxyFromSQL P sql = (Write, None) \<longrightarrow>
      (writer d = None \<longrightarrow>
         Query P d sql args = Return ErrWriterNotCreated \<and>
         QueryRow P d sql args = Return (DBProxyError (Some ErrWriterNotCreated))) \<and>
      (\<forall>w. writer d = Some w \<longrightarrow>
         Query P d sql args = TailCall (PoolQuery w sql args) \<and>
         QueryRow P d sql args = TailCall (PoolQueryRow w sql args))) \<and>
   (getProxyFromSQL P sql = (Read, None) \<longrightarrow>
      (reader d = None \<longrightarrow>
         Query P d sql args = Return ErrReaderNotCreated \<and>
         QueryRow P d sql args = Return (DBProxyError (Some ErrReaderNotCreated))) \<and>
      (\<forall>r. reader d = Some r \<longrightarrow>
         Query P d sql args = TailCall (PoolQuery r sql args) \<and>
         QueryRow P d sql args = TailCall (PoolQueryRow r sql args)))"
  by (simp add: Query_def QueryRow_def Read_neq_Write [symmetric])

theorem Query_QueryRow_route_witness:
  "(Query demoParser readerOnly ''CREATE TABLE some_table(id INT);'' ([] :: nat list)) = Return ErrWriterNotCreated \<and>
   (Query demoParser writerOnly ''SELECT 1'' ([] :: nat list)) = Return ErrReaderNotCreated \<and>
   (QueryRow demoParser bothPools ''SELECT 1'' [7 :: nat])
     = TailCall (PoolQueryRow 1 ''SELECT 1'' [7]) \<and>
   (Query demoParser bothPools ''CREATE TABLE some_table(id INT);'' ([] :: nat list))
     = TailCall (PoolQuery 2 ''CREATE TABLE some_table(id INT);'' [])"
  using Query_QueryRow_route
      [of demoParser "''CREATE TABLE some_table(id INT);''" readerOnly "[] :: nat list"]
    Query_QueryRow_route [of demoParser "''SELECT 1''" writerOnly "[] :: nat list"]
    Query_QueryRow_route [of demoParser "''SELECT 1''" bothPools "[7 :: nat]"]
    Query_QueryRow_route
      [of demoParser "''CREATE TABLE some_table(id INT);''" bothPools "[] :: nat list"]
  by (simp add: demoParser_classifies readerOnly_def writerOnly_def bothPools_def)

text \<open>
  C3. \<open>Exec\<close>, \<open>Begin\<close> and \<open>BeginFunc\<close> look at the writer pool only, whatever the
  SQL, the arguments, the function and the reader pool are: with no writer pool they
  return \<open>ErrWriterNotCreated\<close> having called no pool, and with a writer pool they end
  in that pool's \<open>Exec\<close>, \<open>Begin\<close> or \<open>BeginFunc\<close>.
\<close>

theorem Exec_Begin_BeginFunc_writer:
  "(writer d = None \<longrightarrow>
      Exec d sql args = Return ErrWriterNotCreated \<and>
      Begin d = Return ErrWriterNotCreated \<and>
      BeginFunc d f = Return ErrWriterNotCreated) \<and>
   (\<forall>w. writer d = Some w \<longrightarrow>
      Exec d sql args = TailCall (PoolExec w sql args) \<and>
      Begin d = TailCall (PoolBegin w) \<and>
      BeginFunc d f = TailCall (PoolBeginFunc w f))"
  by (simp add: Exec_def Begin_def BeginFunc_def)

theorem Exec_Begin_BeginFunc_writer_witness:
  "(Exec readerOnly ''SELECT 1'' ([] :: nat list)) = Return ErrWriterNotCreated \<and>
   Begin noPools
     = Return ErrWriterNotCreated \<and>
   BeginFunc readerOnly ()
     = Return ErrWriterNotCreated \<and>
   (Exec bothPools ''SELECT 1'' [7 :: nat])
     = TailCall (PoolExec 2 ''SELECT 1'' [7])"
  using Exec_Begin_BeginFunc_writer [of readerOnly "''SELECT 1''" "[] :: nat list" "()"]
    Exec_Begin_BeginFunc_writer [of noPools "''SELECT 1''" "[] :: nat list" "()"]
    Exec_Begin_BeginFunc_writer [of bothPools "''SELECT 1''" "[7 :: nat]" "()"]
  by (simp add: readerOnly_def noPools_def bothPools_def)

text \<open>
  C4. When the SQL does not parse, or the pool of its role is absent, \<open>QueryRow\<close>
  returns a \<open>DBProxyError\<close> row (a value, not nil) whose \<open>Scan\<close> returns a non-nil
  error: the error whose message is \<open>could not parse sql string: \<close> followed by the
  parser's message, or the sentinel of the absent pool.
\<close>

theorem QueryRow_defers_error:
  "(\<forall>e. snd (getProxyFromSQL P sql) = Some e \<longrightarrow>
      (\<exists>row. QueryRow P d sql args = Return row \<and>
         Scan row = Some (couldNotParse e) \<and>
         Error (couldNotParse e) = ''could not parse sql string: '' @ Error e)) \<and>
   (getProxyFromSQL P sql = (Read, None) \<and> reader d = None \<longrightarrow>
      (\<exists>row. QueryRow P d sql args = Return row \<and> Scan row = Some ErrReaderNotCreated)) \<and>
   (getProxyFromSQL P sql = (Write, None) \<and> writer d = None \<longrightarrow>
      (\<exists>row. QueryRow P d sql args = Return row \<and> Scan row = Some ErrWriterNotCreated))"
  by (auto simp: QueryRow_def Scan_def couldNotParse_def Read_neq_Write [symmetric]
      dest: getProxyFromSQL_error)

theorem QueryRow_defers_error_witness:
  "(\<exists>row. (QueryRow demoParser writerOnly ''SELEC 1'' ([] :: nat list)) = Return row \<and>
      Scan row = Some (errorString ''could not parse sql string: syntax error'')) \<and>
   (\<exists>row. (QueryRow demoParser writerOnly ''SELECT 1'' ([] :: nat list)) = Return row \<and>
      Scan row = Some ErrReaderNotCreated)"
  using QueryRow_defers_error [of demoParser "''SELEC 1''" writerOnly "[] :: nat list"]
    QueryRow_defers_error [of demoParser "''SELECT 1''" writerOnly "[] :: nat list"]
  by (simp add: demoParser_classifies writerOnly_def couldNotParse_def)

section \<open>Errors that \<open>Query\<close> and \<open>QueryRow\<close> make\<close>

lemma couldNotParse_neq: "couldNotParse e \<noteq> e"
proof
  assume eq: "couldNotParse e = e"
  then have "length (Error (couldNotParse e)) = length (Error e)"
    by simp
  then show False
    by (simp add: couldNotParse_def)
qed

lemma errorString_Is: "errors_Is (errorString s) t \<longleftrightarrow> errorString s = t"
  by simp

lemma couldNotParse_not_Is: "\<not> errors_Is (couldNotParse e) e"
  using couldNotParse_neq [of e] by (simp add: couldNotParse_def)

text \<open>
  C8 as stated fails: the parser's error \<open>syntax error\<close> comes back from \<open>Query\<close> as
  a new error with a longer message, and \<open>errors.Is\<close> on it does not find the
  parser's error.
\<close>

theorem Query_parse_error_cause_lost:
  "snd (getProxyFromSQL demoParser ''SELEC 1'') = Some (External ''syntax error'' None) \<and>
   Query demoParser noPools ''SELEC 1'' ([] :: nat list)
     = Return (errorString ''could not parse sql string: syntax error'') \<and>
   \<not> errors_Is (errorString ''could not parse sql string: syntax error'')
       (External ''syntax error'' None)"
  by (simp add: Query_def demoParser_classifies couldNotParse_def)

text \<open>
  C8, amended. When the SQL does not parse, \<open>Query\<close> returns, and the row of
  \<open>QueryRow\<close> holds, a new error whose message is \<open>could not parse sql string: \<close>
  followed by the message of the parser's error; it has no \<open>Unwrap\<close>, and
  \<open>errors.Is\<close> on it does not find the parser's error. When the SQL parses, each of
  the two methods either ends in the call on the pool, whose result it returns as it
  is, or returns one of the two sentinels.
\<close>

theorem Query_parse_error_message:
  "(\<forall>e. snd (getProxyFromSQL P sql) = Some e \<longrightarrow>
      Query P d sql args = Return (couldNotParse e) \<and>
      QueryRow P d sql args = Return (DBProxyError (Some (couldNotParse e))) \<and>
      Error (couldNotParse e) = ''could not parse sql string: '' @ Error e \<and>
      Unwrap (couldNotParse e) = None \<and>
      \<not> errors_Is (couldNotParse e) e) \<and>
   (snd (getProxyFromSQL P sql) = None \<longrightarrow>
      ((\<exists>c. Query P d sql args = TailCall c) \<or>
       Query P d sql args = Return ErrReaderNotCreated \<or>
       Query P d sql args = Return ErrWriterNotCreated) \<and>
      ((\<exists>c. QueryRow P d sql args = TailCall c) \<or>
       QueryRow P d sql args = Return (DBProxyError (Some ErrReaderNotCreated)) \<or>
       QueryRow P d sql args = Return (DBProxyError (Some ErrWriterNotCreated))))"
proof (intro conjI allI impI)
  fix e
  assume "snd (getProxyFromSQL P sql) = Some e"
  then have g: "getProxyFromSQL P sql = ('''', Some e)"
    by (rule getProxyFromSQL_error)
  show "Query P d sql args = Return (couldNotParse e)"
    by (simp add: Query_def g)
  show "QueryRow P d sql args = Return (DBProxyError (Some (couldNotParse e)))"
    by (simp add: QueryRow_def g)
  show "Error (couldNotParse e) = ''could not parse sql string: '' @ Error e"
    by (simp add: couldNotParse_def)
  show "Unwrap (couldNotParse e) = None"
    by (simp add: couldNotParse_def)
  show "\<not> errors_Is (couldNotParse e) e"
    by (rule couldNotParse_not_Is)
next
  assume ok: "snd (getProxyFromSQL P sql) = None"
  then obtain stmts where "getProxyFromSQL P sql = (rangeStmts P stmts, None)"
    by (auto simp: getProxyFromSQL_def split: prod.splits option.splits)
  moreover have "rangeStmts P stmts = Read \<or> rangeStmts P stmts = Write"
    by (rule rangeStmts_role)
  ultimately show
    "(\<exists>c. Query P d sql args = TailCall c) \<or>
       Query P d sql args = Return ErrReaderNotCreated \<or>
       Query P d sql args = Return ErrWriterNotCreated"
    "(\<exists>c. QueryRow P d sql args = TailCall c) \<or>
       QueryRow P d sql args = Return (DBProxyError (Some ErrReaderNotCreated)) \<or>
       QueryRow P d sql args = Return (DBProxyError (Some ErrWriterNotCreated))"
    by (auto simp: Query_def QueryRow_def split: option.splits)
qed

theorem Query_parse_error_message_witness:
  "Query demoParser bothPools ''SELEC 1'' [7 :: nat]
     = Return (errorString ''could not parse sql string: syntax error'') \<and>
   Unwrap (errorString ''could not parse sql string: syntax error'') = None \<and>
   QueryRow demoParser bothPools ''SELEC 1'' [7 :: nat]
     = Return (DBProxyError (Some (errorString ''could not parse sql string: syntax error'')))"
  using Query_parse_error_message [of demoParser "''SELEC 1''" bothPools "[7 :: nat]"]
  by (simp add: demoParser_classifies couldNotParse_def)

section \<open>The token refresh\<close>





section \<open>Opening the pools\<close>

subsection \<open>The connection string\<close>

lemma dsn_demoSecret: "dsn demoSecret = ''host=h port=5432 user=u password=foo dbname=core''"
  by (simp add: dsn_def demoSecret_def itoa_def)

lemma itoa_negative: "itoa (- 15) = ''-15''"
  by (simp add: itoa_def)

subsection \<open>Runs and invariants\<close>

lemma exec_invariant:
  assumes pres: "\<And>c s s'. I s \<Longrightarrow> step L c s = Some s' \<Longrightarrow> I s'"
    and init: "I s"
  shows "I (exec L cs s)"
  using init
proof (induction cs arbitrary: s)
  case Nil
  then show ?case by simp
next
  case (Cons c cs)
  show ?case
  proof (cases "step L c s")
    case None
    with Cons show ?thesis by simp
  next
    case (Some s')
    with Cons pres show ?thesis by simp
  qed
qed

lemma NewConnection_other_role:
  "dp \<noteq> Read \<Longrightarrow> dp \<noteq> Write \<Longrightarrow> dp \<noteq> ReadAndWrite \<Longrightarrow>
     NewConnection dp = [WgAdd, GoWaitClose, WgDone, ReturnErr notProvided, RangeErrs]"
  by (simp add: NewConnection_def)

lemma invalidInv_step:
  assumes "invalidInv d s" and "step L c s = Some s'"
  shows "invalidInv d s'"
proof (cases c)
  case SchedMain
  with assms show ?thesis
    by (auto simp: invalidInv_def step_def stepMain_def split: if_splits)
next
  case (SchedRecv i)
  with assms show ?thesis
    by (auto simp: invalidInv_def step_def stepRecv_def split: if_splits)
next
  case (SchedTask i)
  with assms show ?thesis
    by (auto simp: invalidInv_def step_def stepTask_def split: if_splits)
next
  case SchedWaiter
  with assms show ?thesis
    by (auto simp: invalidInv_def step_def stepWaiter_def split: if_splits waiting.splits)
qed

lemma notProvided_message: "Error notProvided = ''read, write, or readAndWrite not provided''"
  by (simp add: notProvided_def Read_def Write_def ReadAndWrite_def)

text \<open>
  C5. For a role other than \<open>Read\<close>, \<open>Write\<close> and \<open>ReadAndWrite\<close>, under every
  schedule \<open>NewConnection\<close> makes no call outside the process, starts no goroutine for
  a pool and leaves the connector as it was, and when it has returned it has returned
  the error \<open>read, write, or readAndWrite not provided\<close>; it returns after four steps
  of its own, waiting for nothing.
\<close>

theorem NewConnection_invalid_role:
  "dp \<noteq> Read \<and> dp \<noteq> Write \<and> dp \<noteq> ReadAndWrite \<longrightarrow>
     (\<forall>cs. calls (exec L cs (start d (NewConnection dp))) = [] \<and>
        tasks (exec L cs (start d (NewConnection dp))) = [] \<and>
        conn (exec L cs (start d (NewConnection dp))) = d \<and>
        (\<forall>r. mainAt (exec L cs (start d (NewConnection dp))) = Returned r \<longrightarrow>
           r = Some notProvided)) \<and>
     mainAt (exec L [SchedMain, SchedMain, SchedMain, SchedMain] (start d (NewConnection dp)))
       = Returned (Some notProvided) \<and>
     Error notProvided = ''read, write, or readAndWrite not provided''"
proof (intro impI conjI allI)
  assume dp: "dp \<noteq> Read \<and> dp \<noteq> Write \<and> dp \<noteq> ReadAndWrite"
  then have prog:
    "NewConnection dp = [WgAdd, GoWaitClose, WgDone, ReturnErr notProvided, RangeErrs]"
    by (simp add: NewConnection_other_role)
  have init: "invalidInv d (start d (NewConnection dp))"
    by (simp add: prog invalidInv_def start_def)
  have inv: "invalidInv d (exec L cs (start d (NewConnection dp)))" for cs
    using invalidInv_step init by (rule exec_invariant)
  fix cs
  show "calls (exec L cs (start d (NewConnection dp))) = []"
    and "tasks (exec L cs (start d (NewConnection dp))) = []"
    and "conn (exec L cs (start d (NewConnection dp))) = d"
    using inv [of cs] by (simp_all add: invalidInv_def)
  show "r = Some notProvided"
    if "mainAt (exec L cs (start d (NewConnection dp))) = Returned r" for r
    using inv [of cs] that by (auto simp: invalidInv_def)
  show "mainAt (exec L [SchedMain, SchedMain, SchedMain, SchedMain] (start d (NewConnection dp)))
       = Returned (Some notProvided)"
    by (simp add: prog start_def step_def stepMain_def)
  show "Error notProvided = ''read, write, or readAndWrite not provided''"
    by (rule notProvided_message)
qed

theorem NewConnection_invalid_role_witness:
  "''invalid-role'' \<noteq> Read \<and> ''invalid-role'' \<noteq> Write \<and> ''invalid-role'' \<noteq> ReadAndWrite \<and>
   mainAt (exec demoLibs [SchedMain, SchedMain, SchedMain, SchedMain]
      (start noPools (NewConnection ''invalid-role''))) = Returned (Some notProvided) \<and>
   calls (exec demoLibs [SchedWaiter, SchedMain, SchedTask 0, SchedMain, SchedWaiter,
        SchedMain, SchedRecv 0, SchedMain, SchedWaiter]
      (start noPools (NewConnection ''invalid-role''))) = []"
  using NewConnection_invalid_role [of "''invalid-role''" demoLibs noPools]
  by (simp add: Read_def Write_def ReadAndWrite_def del: exec.simps)

subsection \<open>One role\<close>

lemma NewConnection_single:
  "dp = Read \<or> dp = Write \<Longrightarrow>
     NewConnection dp = [WgAdd, GoWaitClose, Go (Connect dp), RangeErrs]"
  by (auto simp: NewConnection_def Read_neq_Write [symmetric])

lemma singleInv_start:
  "dp = Read \<or> dp = Write \<Longrightarrow> singleInv L d dp (start d (NewConnection dp))"
  by (simp add: NewConnection_single singleInv_def start_def split: prod.splits)

lemma singleInv_stepMain:
  assumes "singleInv L d dp s" and "step L SchedMain s = Some s'" and con: "connect L dp d = (d', cs', en)"
  shows "singleInv L d dp s'"
  using assms(1,2) unfolding singleInv_def con step_def prod.case choice.case
  by (elim disjE conjE exE; clarsimp simp: stepMain_def split: if_splits)

lemma singleInv_stepRecv:
  assumes "singleInv L d dp s" and "step L (SchedRecv i) s = Some s'" and con: "connect L dp d = (d', cs', en)"
  shows "singleInv L d dp s'"
  using assms(1,2) unfolding singleInv_def con step_def prod.case choice.case
  by (elim disjE conjE exE; clarsimp simp: stepRecv_def split: if_splits)

lemma singleInv_stepTask:
  assumes "singleInv L d dp s" and "step L (SchedTask i) s = Some s'" and con: "connect L dp d = (d', cs', en)"
  shows "singleInv L d dp s'"
  using assms(1,2) unfolding singleInv_def con step_def prod.case choice.case
  by (elim disjE conjE exE; clarsimp simp: stepTask_def body_def con split: if_splits ending.splits)

lemma singleInv_stepWaiter:
  assumes "singleInv L d dp s" and "step L SchedWaiter s = Some s'" and con: "connect L dp d = (d', cs', en)"
  shows "singleInv L d dp s'"
  using assms(1,2) unfolding singleInv_def con step_def prod.case choice.case
  by (elim disjE conjE exE; clarsimp simp: stepWaiter_def split: if_splits waiting.splits)

lemma singleInv_step:
  assumes "singleInv L d dp s" and "step L c s = Some s'"
  shows "singleInv L d dp s'"
proof -
  obtain d' cs' en where con: "connect L dp d = (d', cs', en)"
    by (cases "connect L dp d") auto
  show ?thesis
  proof (cases c)
    case SchedMain
    with assms con show ?thesis by (simp add: singleInv_stepMain)
  next
    case (SchedRecv i)
    with assms con show ?thesis by (simp add: singleInv_stepRecv)
  next
    case (SchedTask i)
    with assms con show ?thesis by (simp add: singleInv_stepTask)
  next
    case SchedWaiter
    with assms con show ?thesis by (simp add: singleInv_stepWaiter)
  qed
qed

lemma singleInv_exec:
  "dp = Read \<or> dp = Write \<Longrightarrow> singleInv L d dp (exec L cs (start d (NewConnection dp)))"
  using singleInv_step singleInv_start by (rule exec_invariant)

lemma NewConnection_returns_Send:
  assumes dp: "dp = Read \<or> dp = Write" and con: "connect L dp d = (d', cs', Send e)"
  shows "returnsWith L d dp (Some e) d'"
  unfolding returnsWith_def
proof (intro conjI allI impI)
  fix cs r'
  assume ret: "mainAt (exec L cs (start d (NewConnection dp))) = Returned r'"
  have "singleInv L d dp (exec L cs (start d (NewConnection dp)))"
    using dp by (rule singleInv_exec)
  with ret show "r' = Some e" and "conn (exec L cs (start d (NewConnection dp))) = d'"
    by (auto simp: singleInv_def con)
next
  have "mainAt (exec L [SchedMain, SchedMain, SchedMain, SchedTask 0, SchedRecv 0]
      (start d (NewConnection dp))) = Returned (Some e)"
    using dp
    by (simp add: NewConnection_single start_def step_def stepMain_def stepTask_def
        stepRecv_def body_def con)
  then show "\<exists>cs. mainAt (exec L cs (start d (NewConnection dp))) = Returned (Some e)" ..
qed

lemma NewConnection_returns_Finish:
  assumes dp: "dp = Read \<or> dp = Write" and con: "connect L dp d = (d', cs', Finish)"
  shows "returnsWith L d dp None d'"
  unfolding returnsWith_def
proof (intro conjI allI impI)
  fix cs r'
  assume ret: "mainAt (exec L cs (start d (NewConnection dp))) = Returned r'"
  have "singleInv L d dp (exec L cs (start d (NewConnection dp)))"
    using dp by (rule singleInv_exec)
  with ret show "r' = None" and "conn (exec L cs (start d (NewConnection dp))) = d'"
    by (auto simp: singleInv_def con)
next
  have "mainAt (exec L [SchedMain, SchedMain, SchedMain, SchedTask 0, SchedTask 0,
        SchedWaiter, SchedWaiter, SchedMain]
      (start d (NewConnection dp))) = Returned None"
    using dp
    by (simp add: NewConnection_single start_def step_def stepMain_def stepTask_def
        stepWaiter_def body_def con)
  then show "\<exists>cs. mainAt (exec L cs (start d (NewConnection dp))) = Returned None" ..
qed

lemma connect_secret_fails:
  "getValuesAWS L (secretNames dp) zeroSecret = (rs, Some e) \<Longrightarrow>
     connect L dp d = (d, [GetSecretCall (secretNames dp)], Send e)"
  by (simp add: connect_def)

lemma connect_open_fails:
  "dp = Read \<or> dp = Write \<Longrightarrow>
   getValuesAWS L (secretNames dp) zeroSecret = (rs, None) \<Longrightarrow>
   dbOpen L rs = ((pool, Some e), cs) \<Longrightarrow>
     connect L dp d = (setPool dp pool d, GetSecretCall (secretNames dp) # cs, Send e)"
  by (auto simp: connect_def setPool_def Read_neq_Write Read_neq_Write [symmetric]
      split: option.splits)

lemma connect_ping_fails:
  "dp = Read \<or> dp = Write \<Longrightarrow>
   getValuesAWS L (secretNames dp) zeroSecret = (rs, None) \<Longrightarrow>
   dbOpen L rs = ((Some p, None), cs) \<Longrightarrow> PoolPing L p = Some e \<Longrightarrow>
     connect L dp d =
       (setPool dp (Some p) d, GetSecretCall (secretNames dp) # cs @ [PingCall p], Send e)"
  by (auto simp: connect_def setPool_def Read_neq_Write Read_neq_Write [symmetric]
      split: option.splits)

lemma connect_succeeds:
  "dp = Read \<or> dp = Write \<Longrightarrow>
   getValuesAWS L (secretNames dp) zeroSecret = (rs, None) \<Longrightarrow>
   dbOpen L rs = ((Some p, None), cs) \<Longrightarrow> PoolPing L p = None \<Longrightarrow>
     connect L dp d =
       (setPool dp (Some p) d, GetSecretCall (secretNames dp) # cs @ [PingCall p], Finish)"
  by (auto simp: connect_def setPool_def Read_neq_Write Read_neq_Write [symmetric]
      split: option.splits)

lemma NewConnection_one_role_success:
  assumes "dp = Read \<or> dp = Write"
    and "getValuesAWS L (secretNames dp) zeroSecret = (rs, None)"
    and "dbOpen L rs = ((Some p, None), cs)" and "PoolPing L p = None"
  shows "returnsWith L d dp None (setPool dp (Some p) d)"
  using assms(1) connect_succeeds [OF assms] by (rule NewConnection_returns_Finish)

lemma poolOf_setPool: "dp = Read \<or> dp = Write \<Longrightarrow> poolOf dp (setPool dp pool d) = pool"
  by (auto simp: poolOf_def setPool_def Read_neq_Write [symmetric])

text \<open>
  C6 as stated fails at the liveness check: with libraries whose probe is refused,
  \<open>NewConnection(ctx, Read)\<close> on a connector without pools returns the probe's error,
  and the reader field holds the pool that was opened.
\<close>

theorem NewConnection_ping_failure_keeps_pool:
  "reader noPools = None \<and>
   PoolPing pingFailLibs 1 = Some (External ''connection refused'' None) \<and>
   mainAt (exec pingFailLibs [SchedMain, SchedMain, SchedMain, SchedTask 0, SchedRecv 0]
      (start noPools (NewConnection Read)))
     = Returned (Some (External ''connection refused'' None)) \<and>
   reader (conn (exec pingFailLibs [SchedMain, SchedMain, SchedMain, SchedTask 0, SchedRecv 0]
      (start noPools (NewConnection Read)))) = Some 1"
  by (simp add: NewConnection_def start_def step_def stepMain_def stepTask_def
      stepRecv_def body_def connect_def getValuesAWS_def dbOpen_def secretNames_def
      pingFailLibs_def demoLibs_def noPools_def)

text \<open>
  C6, amended. For \<open>NewConnection\<close> with the role \<open>Read\<close> or \<open>Write\<close>: if fetching
  or decoding the secret fails, the call returns that error and the connector is as it
  was; if \<open>dbOpen\<close> fails, the call returns that error and the role's field holds the
  pool that \<open>dbOpen\<close> returned with it (nil, when \<open>dbOpen\<close> returns a nil pool with
  its error), the other field being as it was; if the probe of the opened pool fails,
  the call returns that error and the role's field holds the opened pool.
\<close>

theorem NewConnection_one_role_failure:
  "dp = Read \<or> dp = Write \<longrightarrow>
     (\<forall>rs e. getValuesAWS L (secretNames dp) zeroSecret = (rs, Some e) \<longrightarrow>
        returnsWith L d dp (Some e) d) \<and>
     (\<forall>rs pool e cs.
        getValuesAWS L (secretNames dp) zeroSecret = (rs, None) \<and>
        dbOpen L rs = ((pool, Some e), cs) \<longrightarrow>
        returnsWith L d dp (Some e) (setPool dp pool d) \<and>
        poolOf dp (setPool dp pool d) = pool) \<and>
     (\<forall>rs p e cs.
        getValuesAWS L (secretNames dp) zeroSecret = (rs, None) \<and>
        dbOpen L rs = ((Some p, None), cs) \<and> PoolPing L p = Some e \<longrightarrow>
        returnsWith L d dp (Some e) (setPool dp (Some p) d) \<and>
        poolOf dp (setPool dp (Some p) d) = Some p)"
proof (intro impI conjI allI; (elim conjE)?)
  assume dp: "dp = Read \<or> dp = Write"
  show "returnsWith L d dp (Some e) d"
    if "getValuesAWS L (secretNames dp) zeroSecret = (rs, Some e)" for rs e
    using dp connect_secret_fails [OF that] by (rule NewConnection_returns_Send)
  show "returnsWith L d dp (Some e) (setPool dp pool d)"
    if "getValuesAWS L (secretNames dp) zeroSecret = (rs, None)"
      and "dbOpen L rs = ((pool, Some e), cs)" for rs pool e cs
    using dp connect_open_fails [OF dp that] by (rule NewConnection_returns_Send)
  show "poolOf dp (setPool dp pool d) = pool" for pool
    using dp by (rule poolOf_setPool)
  show "returnsWith L d dp (Some e) (setPool dp (Some p) d)"
    if "getValuesAWS L (secretNames dp) zeroSecret = (rs, None)"
      and "dbOpen L rs = ((Some p, None), cs)" and "PoolPing L p = Some e" for rs p e cs
    using dp connect_ping_fails [OF dp that] by (rule NewConnection_returns_Send)
  show "poolOf dp (setPool dp (Some p) d) = Some p" for p
    using dp by (rule poolOf_setPool)
qed

theorem NewConnection_one_role_failure_witness:
  "returnsWith secretFailLibs noPools Write (Some (errorString ''secret not found'')) noPools \<and>
   returnsWith pingFailLibs noPools Read (Some (External ''connection refused'' None))
     (noPools\<lparr>reader := Some 1\<rparr>)"
  using NewConnection_one_role_failure [of Write secretFailLibs noPools]
    NewConnection_one_role_failure [of Read pingFailLibs noPools]
  by (simp add: getValuesAWS_def dbOpen_def secretNames_def setPool_def
      secretFailLibs_def pingFailLibs_def demoLibs_def Read_neq_Write [symmetric])

subsection \<open>Two goroutines\<close>

lemma connect_secretFailLibs:
  "connect secretFailLibs dp d =
     (d, [GetSecretCall (secretNames dp)], Send (errorString ''secret not found''))"
  by (simp add: connect_def getValuesAWS_def secretFailLibs_def demoLibs_def)

lemma NewConnection_ReadAndWrite:
  "NewConnection ReadAndWrite =
     [WgAdd, GoWaitClose, WgAdd, Go (Connect Read), Go (Connect Write), RangeErrs]"
  by (simp add: NewConnection_def Read_def Write_def ReadAndWrite_def)

lemma bothFailRun_state:
  "bothFailRun =
     \<lparr> conn = noPools,
       calls = [GetSecretCall ''core_iam_user_read'', GetSecretCall ''core_iam_user_write''],
       wg = 1, errsClosed = False, waiter = Waiting,
       tasks = [Exited, Sending (errorString ''secret not found'')],
       mainAt = Returned (Some (errorString ''secret not found'')), panicked = None \<rparr>"
  by (simp add: bothFailRun_def NewConnection_ReadAndWrite start_def step_def stepMain_def
      stepTask_def stepRecv_def body_def connect_secretFailLibs secretNames_def
      Read_neq_Write [symmetric])

lemma pingRaceRun_state:
  "pingRaceRun =
     \<lparr> conn = bothPools, calls = [PingCall 1],
       wg = 2, errsClosed = True, waiter = Gone,
       tasks = [Sending (External ''connection refused'' None), Running (PingProxy Write)],
       mainAt = Returned None, panicked = Some ''send on closed channel'' \<rparr>"
  by (simp add: pingRaceRun_def Ping_def start_def step_def stepMain_def stepWaiter_def
      stepTask_def body_def pingProxy_def bothPools_def pingFailLibs_def demoLibs_def)

lemma bothInv_stepMain:
  assumes "bothInv d eR eW s" and "step L SchedMain s = Some s'"
  shows "bothInv d eR eW s'"
  using assms unfolding bothInv_def step_def choice.case
  by (elim disjE conjE exE; clarsimp simp: stepMain_def pending_def split: if_splits)

lemma bothInv_stepWaiter:
  assumes "bothInv d eR eW s" and "step L SchedWaiter s = Some s'"
  shows "bothInv d eR eW s'"
  using assms unfolding bothInv_def step_def choice.case
  by (elim disjE conjE exE; clarsimp simp: stepWaiter_def split: if_splits)

lemma bothInv_stepRecv:
  assumes "bothInv d eR eW s" and "step L (SchedRecv i) s = Some s'"
  shows "bothInv d eR eW s'"
  using assms unfolding bothInv_def step_def choice.case
  by (elim disjE conjE exE;
      clarsimp simp: stepRecv_def pending_def less_Suc_eq nth_Cons'
        split: if_splits progress.splits)

lemma bothInv_stepTask:
  assumes "bothInv d eR eW s" and "step L (SchedTask i) s = Some s'"
    and conR: "\<And>d. \<exists>cs. connect L Read d = (d, cs, Send eR)"
    and conW: "\<And>d. \<exists>cs. connect L Write d = (d, cs, Send eW)"
  shows "bothInv d eR eW s'"
proof -
  obtain csR csW where c: "connect L Read d = (d, csR, Send eR)"
      "connect L Write d = (d, csW, Send eW)"
    using conR [of d] conW [of d] by auto
  show ?thesis
    using assms(1,2) unfolding bothInv_def step_def choice.case
    by (elim disjE conjE exE;
        clarsimp simp: stepTask_def body_def c pending_def less_Suc_eq nth_Cons'
          split: if_splits progress.splits)
qed

lemma connect_secret_missing:
  "snd (getValuesAWS L (secretNames dp) zeroSecret) = Some e \<Longrightarrow>
     \<exists>cs. connect L dp d = (d, cs, Send e)"
  by (cases "getValuesAWS L (secretNames dp) zeroSecret") (simp add: connect_def)

lemma bothInv_step:
  assumes "bothInv d eR eW s" and "step L c s = Some s'"
    and "snd (getValuesAWS L (secretNames Read) zeroSecret) = Some eR"
    and "snd (getValuesAWS L (secretNames Write) zeroSecret) = Some eW"
  shows "bothInv d eR eW s'"
proof (cases c)
  case SchedMain
  with assms show ?thesis by (simp add: bothInv_stepMain)
next
  case (SchedRecv i)
  with assms show ?thesis by (simp add: bothInv_stepRecv)
next
  case (SchedTask i)
  with assms(1,2) show ?thesis
    using connect_secret_missing [OF assms(3)] connect_secret_missing [OF assms(4)]
    by (auto intro: bothInv_stepTask)
next
  case SchedWaiter
  with assms show ?thesis by (simp add: bothInv_stepWaiter)
qed

lemma NewConnection_both_fail_every_schedule:
  assumes "snd (getValuesAWS L (secretNames Read) zeroSecret) = Some eR"
    and "snd (getValuesAWS L (secretNames Write) zeroSecret) = Some eW"
  shows "\<not> errsClosed (exec L cs (start d (NewConnection ReadAndWrite)))"
    and "waiter (exec L cs (start d (NewConnection ReadAndWrite))) \<noteq> Gone"
    and "mainAt (exec L cs (start d (NewConnection ReadAndWrite))) = Returned r \<Longrightarrow>
      (r = Some eR \<or> r = Some eW) \<and>
      (\<exists>t \<in> set (tasks (exec L cs (start d (NewConnection ReadAndWrite)))).
         t \<noteq> Exited \<and> t \<noteq> Deferred)"
proof -
  have init: "bothInv d eR eW (start d (NewConnection ReadAndWrite))"
    by (simp add: bothInv_def start_def NewConnection_def Read_def Write_def ReadAndWrite_def)
  have "bothInv d eR eW (exec L cs (start d (NewConnection ReadAndWrite)))"
    by (rule exec_invariant [where I = "bothInv d eR eW"]) (auto intro: bothInv_step assms init)
  then show "\<not> errsClosed (exec L cs (start d (NewConnection ReadAndWrite)))"
    and "waiter (exec L cs (start d (NewConnection ReadAndWrite))) \<noteq> Gone"
    and "mainAt (exec L cs (start d (NewConnection ReadAndWrite))) = Returned r \<Longrightarrow>
      (r = Some eR \<or> r = Some eW) \<and>
      (\<exists>t \<in> set (tasks (exec L cs (start d (NewConnection ReadAndWrite)))).
         t \<noteq> Exited \<and> t \<noteq> Deferred)"
    by (auto simp: bothInv_def pending_def)
qed

text \<open>
  C7 fails on the code. In the first run \<open>NewConnection(ctx, ReadAndWrite)\<close> has
  returned the reader's error while the writer's goroutine is blocked in its send, the
  counter of the WaitGroup is 1, the goroutine of \<open>wg.Wait()\<close> is still waiting and
  the channel is open, and no goroutine can ever move again. In the second run \<open>Ping\<close>
  has returned nil though the probe of the reader fails, and that goroutine's send on
  the closed channel panics. The first is no accident of the schedule: by
  \<open>NewConnection_both_fail_every_schedule\<close>, when both secrets are missing the
  channel is never closed, and whenever the call has returned, a goroutine of
  \<open>connect\<close> has not reached its \<open>wg.Done()\<close>.
\<close>

theorem NewConnection_Ping_leave_goroutines:
  "mainAt bothFailRun = Returned (Some (errorString ''secret not found'')) \<and>
   tasks bothFailRun = [Exited, Sending (errorString ''secret not found'')] \<and>
   wg bothFailRun = 1 \<and> waiter bothFailRun = Waiting \<and> \<not> errsClosed bothFailRun \<and>
   (\<forall>c. step secretFailLibs c bothFailRun = None) \<and>
   mainAt pingRaceRun = Returned None \<and>
   tasks pingRaceRun
     = [Sending (External ''connection refused'' None), Running (PingProxy Write)] \<and>
   panicked pingRaceRun = Some ''send on closed channel''"
proof -
  have "step secretFailLibs c bothFailRun = None" for c
  proof (cases c)
    case SchedMain
    then show ?thesis by (simp add: bothFailRun_state step_def stepMain_def)
  next
    case (SchedRecv i)
    then show ?thesis by (simp add: bothFailRun_state step_def stepRecv_def)
  next
    case (SchedTask i)
    consider "i = 0" | "i = 1" | "2 \<le> i"
      by linarith
    then show ?thesis
      by cases (simp_all add: SchedTask bothFailRun_state step_def stepTask_def)
  next
    case SchedWaiter
    then show ?thesis by (simp add: bothFailRun_state step_def stepWaiter_def)
  qed
  then show ?thesis
    by (simp add: bothFailRun_state pingRaceRun_state)
qed

end
